theory Spec2Isabelle
  imports
    Complex_Main
    "HOL-Library.Char_ord"
    "HOL-Library.List_Lexorder"
    "HOL-Library.Option_ord"
    "HOL-Library.Product_Lexorder"
begin

section \<open>Category labels\<close>

text \<open>
  The queries of \<^verbatim>\<open>blood_features.py\<close> and \<^verbatim>\<open>jockey_features.py\<close> label their
  buckets with Japanese string literals. A \<^typ>\<open>string\<close> is a list of bytes, so every
  label is written as the UTF-8 encoding of the literal in the source. Strings are
  compared bytewise (the order of \<^verbatim>\<open>List_Lexorder\<close> over \<^verbatim>\<open>Char_ord\<close>).
\<close>

definition lbl_shiba :: string where \<comment> \<open>shiba (turf), U+829D\<close>
  "lbl_shiba = [CHR 0xE8, CHR 0x8A, CHR 0x9D]"

definition lbl_dirt :: string where \<comment> \<open>daato (dirt)\<close>
  "lbl_dirt = [CHR 0xE3, CHR 0x83, CHR 0x80, CHR 0xE3, CHR 0x83, CHR 0xBC, CHR 0xE3,
     CHR 0x83, CHR 0x88]"

definition lbl_sonota :: string where \<comment> \<open>sonota (other)\<close>
  "lbl_sonota = [CHR 0xE3, CHR 0x81, CHR 0x9D, CHR 0xE3, CHR 0x81, CHR 0xAE, CHR 0xE4,
     CHR 0xBB, CHR 0x96]"

definition lbl_ryo :: string where \<comment> \<open>ryo (good)\<close>
  "lbl_ryo = [CHR 0xE8, CHR 0x89, CHR 0xAF]"

definition lbl_yayaomo :: string where \<comment> \<open>yayaomo (yielding)\<close>
  "lbl_yayaomo = [CHR 0xE7, CHR 0xA8, CHR 0x8D, CHR 0xE9, CHR 0x87, CHR 0x8D]"

definition lbl_omo :: string where \<comment> \<open>omo (soft)\<close>
  "lbl_omo = [CHR 0xE9, CHR 0x87, CHR 0x8D]"

definition lbl_furyo :: string where \<comment> \<open>furyo (heavy)\<close>
  "lbl_furyo = [CHR 0xE4, CHR 0xB8, CHR 0x8D, CHR 0xE8, CHR 0x89, CHR 0xAF]"

definition lbl_fumei :: string where \<comment> \<open>fumei (unknown)\<close>
  "lbl_fumei = [CHR 0xE4, CHR 0xB8, CHR 0x8D, CHR 0xE6, CHR 0x98, CHR 0x8E]"

definition lbl_tankyori :: string where \<comment> \<open>tankyori (short distance)\<close>
  "lbl_tankyori = [CHR 0xE7, CHR 0x9F, CHR 0xAD, CHR 0xE8, CHR 0xB7, CHR 0x9D,
     CHR 0xE9, CHR 0x9B, CHR 0xA2]"

definition lbl_chukyori :: string where \<comment> \<open>chukyori (middle distance)\<close>
  "lbl_chukyori = [CHR 0xE4, CHR 0xB8, CHR 0xAD, CHR 0xE8, CHR 0xB7, CHR 0x9D,
     CHR 0xE9, CHR 0x9B, CHR 0xA2]"

definition lbl_chokyori :: string where \<comment> \<open>chokyori (long distance)\<close>
  "lbl_chokyori = [CHR 0xE9, CHR 0x95, CHR 0xB7, CHR 0xE8, CHR 0xB7, CHR 0x9D,
     CHR 0xE9, CHR 0x9B, CHR 0xA2]"

definition lbl_ninki :: string where \<comment> \<open>ninki (favourites, ranks 1-3)\<close>
  "lbl_ninki = [CHR 0xE4, CHR 0xBA, CHR 0xBA, CHR 0xE6, CHR 0xB0, CHR 0x97, CHR 0xEF,
     CHR 0xBC, CHR 0x88, CHR 0x31, CHR 0x2D, CHR 0x33, CHR 0xE4, CHR 0xBD, CHR 0x8D,
     CHR 0xEF, CHR 0xBC, CHR 0x89]"

definition lbl_chuana :: string where \<comment> \<open>chuana (mid-range, ranks 4-8)\<close>
  "lbl_chuana = [CHR 0xE4, CHR 0xB8, CHR 0xAD, CHR 0xE7, CHR 0xA9, CHR 0xB4, CHR 0xEF,
     CHR 0xBC, CHR 0x88, CHR 0x34, CHR 0x2D, CHR 0x38, CHR 0xE4, CHR 0xBD, CHR 0x8D,
     CHR 0xEF, CHR 0xBC, CHR 0x89]"

definition lbl_ooana :: string where \<comment> \<open>ooana (longshots, rank 9 and beyond)\<close>
  "lbl_ooana = [CHR 0xE5, CHR 0xA4, CHR 0xA7, CHR 0xE7, CHR 0xA9, CHR 0xB4, CHR 0xEF,
     CHR 0xBC, CHR 0x88, CHR 0x39, CHR 0xE4, CHR 0xBD, CHR 0x8D, CHR 0x2D, CHR 0xEF,
     CHR 0xBC, CHR 0x89]"

definition lbl_sapporo :: string where \<comment> \<open>Sapporo\<close>
  "lbl_sapporo = [CHR 0xE6, CHR 0x9C, CHR 0xAD, CHR 0xE5, CHR 0xB9, CHR 0x8C]"

definition lbl_hakodate :: string where \<comment> \<open>Hakodate\<close>
  "lbl_hakodate = [CHR 0xE5, CHR 0x87, CHR 0xBD, CHR 0xE9, CHR 0xA4, CHR 0xA8]"

definition lbl_fukushima :: string where \<comment> \<open>Fukushima\<close>
  "lbl_fukushima = [CHR 0xE7, CHR 0xA6, CHR 0x8F, CHR 0xE5, CHR 0xB3, CHR 0xB6]"

definition lbl_niigata :: string where \<comment> \<open>Niigata\<close>
  "lbl_niigata = [CHR 0xE6, CHR 0x96, CHR 0xB0, CHR 0xE6, CHR 0xBD, CHR 0x9F]"

definition lbl_tokyo :: string where \<comment> \<open>Tokyo\<close>
  "lbl_tokyo = [CHR 0xE6, CHR 0x9D, CHR 0xB1, CHR 0xE4, CHR 0xBA, CHR 0xAC]"

definition lbl_nakayama :: string where \<comment> \<open>Nakayama\<close>
  "lbl_nakayama = [CHR 0xE4, CHR 0xB8, CHR 0xAD, CHR 0xE5, CHR 0xB1, CHR 0xB1]"

definition lbl_chukyo :: string where \<comment> \<open>Chukyo\<close>
  "lbl_chukyo = [CHR 0xE4, CHR 0xB8, CHR 0xAD, CHR 0xE4, CHR 0xBA, CHR 0xAC]"

definition lbl_kyoto :: string where \<comment> \<open>Kyoto\<close>
  "lbl_kyoto = [CHR 0xE4, CHR 0xBA, CHR 0xAC, CHR 0xE9, CHR 0x83, CHR 0xBD]"

definition lbl_hanshin :: string where \<comment> \<open>Hanshin\<close>
  "lbl_hanshin = [CHR 0xE9, CHR 0x98, CHR 0xAA, CHR 0xE7, CHR 0xA5, CHR 0x9E]"

definition lbl_kokura :: string where \<comment> \<open>Kokura\<close>
  "lbl_kokura = [CHR 0xE5, CHR 0xB0, CHR 0x8F, CHR 0xE5, CHR 0x80, CHR 0x89]"

section \<open>The data source\<close>

text \<open>
  The three tables the queries read. The schema itself is not part of the sources;
  the columns are the ones the queries name. \<^verbatim>\<open>tansho_odds\<close> holds the win odds in
  tenths and \<^verbatim>\<open>tansho_ninkijun\<close> the popularity rank; both are nullable.
\<close>

record jvd_se_row =
  se_kaisai_nen :: string
  se_kaisai_tsukihi :: string
  se_keibajo_code :: string
  se_race_bango :: string
  se_ketto_toroku_bango :: string
  se_kishu_code :: string
  se_kishumei_ryakusho :: string
  se_kakutei_chakujun :: string
  se_tansho_odds :: "int option"
  se_tansho_ninkijun :: "int option"

record jvd_ra_row =
  ra_kaisai_nen :: string
  ra_kaisai_tsukihi :: string
  ra_keibajo_code :: string
  ra_race_bango :: string
  ra_track_code :: string
  ra_babajotai_code_shiba :: string
  ra_babajotai_code_dirt :: string
  ra_kyori :: int

record jvd_um_row =
  um_ketto_toroku_bango :: string
  um_bamei :: string
  um_ketto_joho_01a :: string
  um_ketto_joho_01b :: string
  um_ketto_joho_02a :: string
  um_ketto_joho_02b :: string

text \<open>Each call of \<^verbatim>\<open>pd.read_sql\<close> in the sources is one of these queries.\<close>

datatype query =
    SireTrackConditionRoi
  | HorseSireLookup
  | HorseSireTrackRoi
  | HorseSireTrackRank
  | PedigreeQuery
  | JockeyCourseRoi
  | JockeyPopularityRoi
  | JockeySurfaceConditionRoi
  | JockeyCourseFeature

datatype exn = DataAccessFailure | KeyError | IndexError

text \<open>
  The engine is the content of the tables together with the set of queries whose
  execution raises. A Python call either raises (\<open>Inl\<close>) or returns (\<open>Inr\<close>).
\<close>

record engine =
  jvd_se :: "jvd_se_row list"
  jvd_ra :: "jvd_ra_row list"
  jvd_um :: "jvd_um_row list"
  failing :: "query set"

definition read_sql :: "engine \<Rightarrow> query \<Rightarrow> 'a \<Rightarrow> exn + 'a" where
  "read_sql db q rows = (if q \<in> failing db then Inl DataAccessFailure else Inr rows)"

definition try_except :: "exn + 'a \<Rightarrow> (exn \<Rightarrow> exn + 'a) \<Rightarrow> exn + 'a" where
  "try_except body handler = (case body of Inl e \<Rightarrow> handler e | Inr v \<Rightarrow> Inr v)"

text \<open>Sequencing: an exception of the first statement skips the rest.\<close>

definition and_then :: "exn + 'a \<Rightarrow> ('a \<Rightarrow> exn + 'b) \<Rightarrow> exn + 'b" where
  "and_then m f = (case m of Inl e \<Rightarrow> Inl e | Inr v \<Rightarrow> f v)"


section \<open>SQL building blocks\<close>

text \<open>\<^verbatim>\<open>kakutei_chakujun ~ '^[0-9]+$'\<close>: a non-empty string of decimal digits.\<close>

definition is_digits :: "string \<Rightarrow> bool" where
  "is_digits s = (s \<noteq> [] \<and> list_all (\<lambda>c. c \<in> set ''0123456789'') s)"

text \<open>
  The finish-position part of every \<^verbatim>\<open>WHERE\<close> clause:
  \<^verbatim>\<open>kakutei_chakujun ~ '^[0-9]+$' AND kakutei_chakujun NOT IN ('00', '99')\<close>.
\<close>

definition finished :: "jvd_se_row \<Rightarrow> bool" where
  "finished s = (is_digits (se_kakutei_chakujun s)
                 \<and> se_kakutei_chakujun s \<notin> {''00'', ''99''})"

text \<open>\<^verbatim>\<open>x IS NOT NULL\<close>, binding the value that is present.\<close>

definition non_null :: "'a option \<Rightarrow> 'a list" where
  "non_null v = (case v of None \<Rightarrow> [] | Some x \<Rightarrow> [x])"

text \<open>\<^verbatim>\<open>CAST(tansho_odds AS NUMERIC) / 10.0\<close>; \<^verbatim>\<open>NUMERIC\<close> is modelled by \<^typ>\<open>rat\<close>.\<close>

definition decimal_odds :: "int \<Rightarrow> rat" where
  "decimal_odds raw = of_int raw / 10"

text \<open>The join condition between \<^verbatim>\<open>jvd_se\<close> and \<^verbatim>\<open>jvd_ra\<close>.\<close>

definition same_race :: "jvd_se_row \<Rightarrow> jvd_ra_row \<Rightarrow> bool" where
  "same_race s r = (se_kaisai_nen s = ra_kaisai_nen r
                    \<and> se_kaisai_tsukihi s = ra_kaisai_tsukihi r
                    \<and> se_keibajo_code s = ra_keibajo_code r
                    \<and> se_race_bango s = ra_race_bango r)"

text \<open>\<^verbatim>\<open>TRIM(x)\<close> removes leading and trailing spaces.\<close>

definition trim :: "string \<Rightarrow> string" where
  "trim s = rev (dropWhile (\<lambda>c. c = CHR '' '') (rev (dropWhile (\<lambda>c. c = CHR '' '') s)))"

text \<open>Python's \<^verbatim>\<open>str\<close> of an integer, as the f-strings put it into the query text.\<close>

fun str_nat :: "nat \<Rightarrow> string" where
  "str_nat n = (if n < 10 then [''0123456789'' ! n]
                else str_nat (n div 10) @ [''0123456789'' ! (n mod 10)])"

declare str_nat.simps [simp del]

definition str_int :: "int \<Rightarrow> string" where
  "str_int i = (if i < 0 then ''-'' @ str_nat (nat (- i)) else str_nat (nat i))"

text \<open>The categorical buckets.\<close>

definition track_type_of :: "jvd_ra_row \<Rightarrow> string" where
  "track_type_of r =
     (if take 1 (ra_track_code r) = ''1'' then lbl_shiba
      else if take 1 (ra_track_code r) = ''2'' then lbl_dirt
      else lbl_sonota)"

definition track_condition_of :: "jvd_ra_row \<Rightarrow> string" where
  "track_condition_of r =
     (if take 1 (ra_track_code r) = ''1'' \<and> ra_babajotai_code_shiba r = ''1'' then lbl_ryo
      else if take 1 (ra_track_code r) = ''1'' \<and> ra_babajotai_code_shiba r = ''2'' then lbl_yayaomo
      else if take 1 (ra_track_code r) = ''1'' \<and> ra_babajotai_code_shiba r = ''3'' then lbl_omo
      else if take 1 (ra_track_code r) = ''1'' \<and> ra_babajotai_code_shiba r = ''4'' then lbl_furyo
      else if take 1 (ra_track_code r) = ''2'' \<and> ra_babajotai_code_dirt r = ''1'' then lbl_ryo
      else if take 1 (ra_track_code r) = ''2'' \<and> ra_babajotai_code_dirt r = ''2'' then lbl_yayaomo
      else if take 1 (ra_track_code r) = ''2'' \<and> ra_babajotai_code_dirt r = ''3'' then lbl_omo
      else if take 1 (ra_track_code r) = ''2'' \<and> ra_babajotai_code_dirt r = ''4'' then lbl_furyo
      else lbl_fumei)"

definition course_name_of :: "string \<Rightarrow> string" where
  "course_name_of code =
     (if code = ''01'' then lbl_sapporo
      else if code = ''02'' then lbl_hakodate
      else if code = ''03'' then lbl_fukushima
      else if code = ''04'' then lbl_niigata
      else if code = ''05'' then lbl_tokyo
      else if code = ''06'' then lbl_nakayama
      else if code = ''07'' then lbl_chukyo
      else if code = ''08'' then lbl_kyoto
      else if code = ''09'' then lbl_hanshin
      else if code = ''10'' then lbl_kokura
      else code)"

definition distance_category_of :: "int \<Rightarrow> string" where
  "distance_category_of kyori =
     (if kyori \<le> 1400 then lbl_tankyori
      else if kyori \<le> 2000 then lbl_chukyori
      else lbl_chokyori)"

definition popularity_category_of :: "int \<Rightarrow> string" where
  "popularity_category_of ninkijun =
     (if 1 \<le> ninkijun \<and> ninkijun \<le> 3 then lbl_ninki
      else if 4 \<le> ninkijun \<and> ninkijun \<le> 8 then lbl_chuana
      else lbl_ooana)"

text \<open>
  A row of the first common table expression of a query: the grouping columns
  \<open>grp\<close> and the columns the aggregates read. A query that does not select
  \<^verbatim>\<open>popularity\<close> never reads that field.
\<close>

record 'k cte_row =
  grp :: 'k
  finish_pos :: string
  win_odds :: rat
  popularity :: "int option"

text \<open>
  \<^verbatim>\<open>ROUND(x, 2)\<close> on \<^verbatim>\<open>NUMERIC\<close>: to two decimal places, a tie away from zero.
\<close>

definition round2 :: "rat \<Rightarrow> rat" where
  "round2 x = (if 0 \<le> x then of_int \<lfloor>x * 100 + 1 / 2\<rfloor> / 100
               else - (of_int \<lfloor>- x * 100 + 1 / 2\<rfloor> / 100))"

text \<open>\<^verbatim>\<open>ROUND(x / NULLIF(n, 0) * 100, 2)\<close>: \<open>None\<close> is SQL's \<^verbatim>\<open>NULL\<close>.\<close>

definition rate_pct :: "rat \<Rightarrow> int \<Rightarrow> rat option" where
  "rate_pct x n = (if n = 0 then None else Some (round2 (x / of_int n * 100)))"

text \<open>\<^verbatim>\<open>ROUND(x / NULLIF(y, 0), 2)\<close> on nullable operands.\<close>

definition ratio2 :: "rat option \<Rightarrow> rat option \<Rightarrow> rat option" where
  "ratio2 x y = (case (x, y) of
                   (Some a, Some b) \<Rightarrow> (if b = 0 then None else Some (round2 (a / b)))
                 | _ \<Rightarrow> None)"

text \<open>\<^verbatim>\<open>ROUND(AVG(x), 2)\<close> over the non-null values \<open>xs\<close>.\<close>

definition avg2 :: "rat list \<Rightarrow> rat option" where
  "avg2 xs = (if xs = [] then None else Some (round2 (sum_list xs / of_nat (length xs))))"

definition count_star :: "'a list \<Rightarrow> int" where
  "count_star rows = int (length rows)"

definition count_filter :: "('a \<Rightarrow> bool) \<Rightarrow> 'a list \<Rightarrow> int" where
  "count_filter P rows = int (length (filter P rows))"

definition is_win :: "('k, 'z) cte_row_scheme \<Rightarrow> bool" where
  "is_win r = (finish_pos r = ''01'')"

definition is_top3 :: "('k, 'z) cte_row_scheme \<Rightarrow> bool" where
  "is_top3 r = (finish_pos r \<in> {''01'', ''02'', ''03''})"

text \<open>\<^verbatim>\<open>popularity >= lo\<close> and \<^verbatim>\<open>popularity <= hi\<close>; a comparison with \<^verbatim>\<open>NULL\<close> is not true.\<close>

definition pop_ge :: "int \<Rightarrow> ('k, 'z) cte_row_scheme \<Rightarrow> bool" where
  "pop_ge lo r = (case popularity r of None \<Rightarrow> False | Some p \<Rightarrow> lo \<le> p)"

definition pop_le :: "int \<Rightarrow> ('k, 'z) cte_row_scheme \<Rightarrow> bool" where
  "pop_le hi r = (case popularity r of None \<Rightarrow> False | Some p \<Rightarrow> p \<le> hi)"

text \<open>\<^verbatim>\<open>SUM(CASE WHEN finish_pos = '01' THEN win_odds ELSE 0 END)\<close>\<close>

definition sum_win_odds :: "('k, 'z) cte_row_scheme list \<Rightarrow> rat" where
  "sum_win_odds rows = sum_list (map (\<lambda>r. if is_win r then win_odds r else 0) rows)"

definition agg_win_rate :: "('k, 'z) cte_row_scheme list \<Rightarrow> rat option" where
  "agg_win_rate rows = rate_pct (of_int (count_filter is_win rows)) (count_star rows)"

definition agg_top3_rate :: "('k, 'z) cte_row_scheme list \<Rightarrow> rat option" where
  "agg_top3_rate rows = rate_pct (of_int (count_filter is_top3 rows)) (count_star rows)"

definition agg_roi_percentage :: "('k, 'z) cte_row_scheme list \<Rightarrow> rat option" where
  "agg_roi_percentage rows = rate_pct (sum_win_odds rows) (count_star rows)"

text \<open>\<^verbatim>\<open>ROUND(AVG(CASE WHEN finish_pos = '01' THEN win_odds ELSE NULL END), 2)\<close>\<close>

definition agg_avg_win_odds :: "('k, 'z) cte_row_scheme list \<Rightarrow> rat option" where
  "agg_avg_win_odds rows = avg2 (map win_odds (filter is_win rows))"

text \<open>\<^verbatim>\<open>ROUND(AVG(popularity), 2)\<close>\<close>

definition agg_avg_popularity :: "('k, 'z) cte_row_scheme list \<Rightarrow> rat option" where
  "agg_avg_popularity rows = avg2 [of_int p. r \<leftarrow> rows, p \<leftarrow> non_null (popularity r)]"

text \<open>
  \<^verbatim>\<open>GROUP BY\<close>: one group per distinct key, in the order of first appearance, each
  with the rows of that key.
\<close>

definition group_by :: "('r \<Rightarrow> 'k) \<Rightarrow> 'r list \<Rightarrow> ('k \<times> 'r list) list" where
  "group_by f rows = map (\<lambda>k. (k, filter (\<lambda>r. f r = k) rows)) (remdups (map f rows))"

text \<open>\<^verbatim>\<open>HAVING COUNT(*) >= min_races\<close>\<close>

definition having_min_races :: "int \<Rightarrow> ('k \<times> 'r list) list \<Rightarrow> ('k \<times> 'r list) list" where
  "having_min_races min_races groups = filter (\<lambda>g. min_races \<le> count_star (snd g)) groups"

text \<open>
  The columns every rollup returns; each operation extends them with its own key
  and extra statistics.
\<close>

record aggregate_stat =
  total_races :: int
  wins :: int
  win_rate :: "rat option"
  roi_percentage :: "rat option"
  avg_win_odds :: "rat option"

text \<open>
  \<^verbatim>\<open>ORDER BY roi_percentage DESC\<close>: a stable sort; in descending order a
  \<^verbatim>\<open>NULL\<close> comes first (\<open>None\<close> is the least element of \<^typ>\<open>rat option\<close>).
\<close>

definition desc :: "rat option \<Rightarrow> rat option" where
  "desc v = map_option uminus v"

definition order_by_roi_desc :: "'z aggregate_stat_scheme list \<Rightarrow> 'z aggregate_stat_scheme list" where
  "order_by_roi_desc rows = sort_key (\<lambda>g. desc (roi_percentage g)) rows"


section \<open>\<^verbatim>\<open>BloodFeatureGenerator.get_sire_track_condition_roi\<close>\<close>

type_synonym sire_key = "string \<times> string \<times> string \<times> string"

definition sire_track_results :: "engine \<Rightarrow> int \<Rightarrow> sire_key cte_row list" where
  "sire_track_results db since_year =
     [\<lparr>grp = (um_ketto_joho_01a u, trim (um_ketto_joho_01b u),
               track_type_of r, track_condition_of r),
       finish_pos = se_kakutei_chakujun s,
       win_odds = decimal_odds odds,
       popularity = se_tansho_ninkijun s\<rparr>.
      s \<leftarrow> jvd_se db,
      r \<leftarrow> jvd_ra db, same_race s r,
      u \<leftarrow> jvd_um db, se_ketto_toroku_bango s = um_ketto_toroku_bango u,
      finished s,
      str_int since_year \<le> ra_kaisai_nen r,
      um_ketto_joho_01a u \<noteq> ''0000000000'',
      odds \<leftarrow> non_null (se_tansho_odds s)]"

record sire_stat = aggregate_stat +
  st_sire_id :: string
  st_sire_name :: string
  st_track_type :: string
  st_track_condition :: string
  st_avg_popularity :: "rat option"
  st_longshot_wins :: int

definition sire_select :: "sire_key \<times> sire_key cte_row list \<Rightarrow> sire_stat" where
  "sire_select g =
     (case g of ((sire_id, sire_name, track_type, track_condition), rows) \<Rightarrow>
        \<lparr>total_races = count_star rows,
         wins = count_filter is_win rows,
         win_rate = agg_win_rate rows,
         roi_percentage = agg_roi_percentage rows,
         avg_win_odds = agg_avg_win_odds rows,
         st_sire_id = sire_id,
         st_sire_name = sire_name,
         st_track_type = track_type,
         st_track_condition = track_condition,
         st_avg_popularity = agg_avg_popularity rows,
         st_longshot_wins = count_filter (\<lambda>r. pop_ge 9 r \<and> is_win r) rows\<rparr>)"

definition sire_track_condition_roi_query :: "engine \<Rightarrow> int \<Rightarrow> int \<Rightarrow> sire_stat list" where
  "sire_track_condition_roi_query db since_year min_races =
     order_by_roi_desc
       (map sire_select
          (having_min_races min_races (group_by grp (sire_track_results db since_year))))"

definition get_sire_track_condition_roi :: "engine \<Rightarrow> int \<Rightarrow> int \<Rightarrow> exn + sire_stat list" where
  "get_sire_track_condition_roi db since_year min_races =
     try_except
       (read_sql db SireTrackConditionRoi
          (sire_track_condition_roi_query db since_year min_races))
       (\<lambda>e. Inr [])"


section \<open>\<^verbatim>\<open>BloodFeatureGenerator.get_horse_sire_track_roi_feature\<close>\<close>

text \<open>The first query: the sire of the horse.\<close>

definition sire_lookup_query :: "engine \<Rightarrow> string \<Rightarrow> (string \<times> string) list" where
  "sire_lookup_query db horse_id =
     [(um_ketto_joho_01a u, trim (um_ketto_joho_01b u)).
      u \<leftarrow> jvd_um db, um_ketto_toroku_bango u = horse_id]"

text \<open>
  \<^verbatim>\<open>roi_query\<close>: the results of one sire, all years, then one segment selected and
  aggregated without \<^verbatim>\<open>GROUP BY\<close> and without \<^verbatim>\<open>HAVING\<close>: exactly one row.
\<close>

definition horse_sire_track_results :: "engine \<Rightarrow> string \<Rightarrow> sire_key cte_row list" where
  "horse_sire_track_results db sire_id =
     [\<lparr>grp = (um_ketto_joho_01a u, trim (um_ketto_joho_01b u),
               track_type_of r, track_condition_of r),
       finish_pos = se_kakutei_chakujun s,
       win_odds = decimal_odds odds,
       popularity = None\<rparr>.
      s \<leftarrow> jvd_se db,
      r \<leftarrow> jvd_ra db, same_race s r,
      u \<leftarrow> jvd_um db, se_ketto_toroku_bango s = um_ketto_toroku_bango u,
      finished s,
      um_ketto_joho_01a u = sire_id,
      odds \<leftarrow> non_null (se_tansho_odds s)]"

record segment_stat =
  sg_total_races :: int
  sg_wins :: int
  sg_win_rate :: "rat option"
  sg_roi_percentage :: "rat option"

definition in_segment :: "string \<Rightarrow> string \<Rightarrow> sire_key cte_row \<Rightarrow> bool" where
  "in_segment race_track_type race_condition row =
     (case grp row of (sire_id, sire_name, track_type, track_condition) \<Rightarrow>
        track_type = race_track_type \<and> track_condition = race_condition)"

definition horse_sire_track_roi_query ::
  "engine \<Rightarrow> string \<Rightarrow> string \<Rightarrow> string \<Rightarrow> segment_stat list" where
  "horse_sire_track_roi_query db sire_id race_track_type race_condition =
     (let rows = filter (in_segment race_track_type race_condition)
                   (horse_sire_track_results db sire_id)
      in [\<lparr>sg_total_races = count_star rows,
            sg_wins = count_filter is_win rows,
            sg_win_rate = agg_win_rate rows,
            sg_roi_percentage = agg_roi_percentage rows\<rparr>])"

text \<open>
  \<^verbatim>\<open>rank_query\<close>: the results of every sire, all years, restricted to the segment,
  grouped by sire and segment, groups of fewer than 20 races dropped, then numbered
  by \<^verbatim>\<open>ROW_NUMBER()\<close> within the segment in descending order of the unrounded ROI.
\<close>

type_synonym rank_key = "string \<times> string \<times> string"

definition sire_rank_results :: "engine \<Rightarrow> rank_key cte_row list" where
  "sire_rank_results db =
     [\<lparr>grp = (um_ketto_joho_01a u, track_type_of r, track_condition_of r),
       finish_pos = se_kakutei_chakujun s,
       win_odds = decimal_odds odds,
       popularity = None\<rparr>.
      s \<leftarrow> jvd_se db,
      r \<leftarrow> jvd_ra db, same_race s r,
      u \<leftarrow> jvd_um db, se_ketto_toroku_bango s = um_ketto_toroku_bango u,
      finished s,
      odds \<leftarrow> non_null (se_tansho_odds s)]"

definition in_rank_segment :: "string \<Rightarrow> string \<Rightarrow> rank_key cte_row \<Rightarrow> bool" where
  "in_rank_segment race_track_type race_condition row =
     (case grp row of (sire_id, track_type, track_condition) \<Rightarrow>
        track_type = race_track_type \<and> track_condition = race_condition)"

text \<open>\<^verbatim>\<open>SUM(CASE WHEN finish_pos = '01' THEN win_odds ELSE 0 END) / NULLIF(COUNT(*), 0)\<close>\<close>

definition unrounded_roi :: "('k, 'z) cte_row_scheme list \<Rightarrow> rat option" where
  "unrounded_roi rows =
     (if count_star rows = 0 then None else Some (sum_win_odds rows / of_int (count_star rows)))"

text \<open>
  \<^verbatim>\<open>ROW_NUMBER() OVER (PARTITION BY part ORDER BY ord)\<close>: each partition is sorted
  (stably) and numbered from 1.
\<close>

definition row_number_over ::
  "('r \<Rightarrow> 'p) \<Rightarrow> ('r \<Rightarrow> 'o::linorder) \<Rightarrow> 'r list \<Rightarrow> ('r \<times> int) list" where
  "row_number_over part ord rows =
     concat (map (\<lambda>pr. zip (sort_key ord (snd pr)) (map int [1..<Suc (length (snd pr))]))
               (group_by part rows))"

record sire_rank_row =
  rk_sire_id :: string
  rk_track_type :: string
  rk_track_condition :: string
  rk_total_races :: int
  rk_roi_percentage :: "rat option"
  rk_roi_rank :: int

definition rank_partition :: "rank_key \<times> rank_key cte_row list \<Rightarrow> string \<times> string" where
  "rank_partition g = (case g of ((sire_id, track_type, track_condition), rows) \<Rightarrow>
                         (track_type, track_condition))"

definition rank_select :: "(rank_key \<times> rank_key cte_row list) \<times> int \<Rightarrow> sire_rank_row" where
  "rank_select gn =
     (case gn of (((sire_id, track_type, track_condition), rows), n) \<Rightarrow>
        \<lparr>rk_sire_id = sire_id,
         rk_track_type = track_type,
         rk_track_condition = track_condition,
         rk_total_races = count_star rows,
         rk_roi_percentage = agg_roi_percentage rows,
         rk_roi_rank = n\<rparr>)"

definition sire_ranking :: "engine \<Rightarrow> string \<Rightarrow> string \<Rightarrow> sire_rank_row list" where
  "sire_ranking db race_track_type race_condition =
     map rank_select
       (row_number_over rank_partition (\<lambda>g. desc (unrounded_roi (snd g)))
          (having_min_races 20
             (group_by grp
                (filter (in_rank_segment race_track_type race_condition)
                   (sire_rank_results db)))))"

definition sire_rank_query :: "engine \<Rightarrow> string \<Rightarrow> string \<Rightarrow> string \<Rightarrow> int list" where
  "sire_rank_query db sire_id race_track_type race_condition =
     map rk_roi_rank
       (filter (\<lambda>row. rk_sire_id row = sire_id)
          (sire_ranking db race_track_type race_condition))"

record sire_feature =
  sire_name :: "string option"
  sire_track_roi :: "rat option"
  sire_track_win_rate :: "rat option"
  sire_track_races :: int
  sire_track_roi_rank :: int

text \<open>The record of the three degraded returns; \<^verbatim>\<open>0.0\<close> is \<open>Some 0\<close>.\<close>

definition zero_feature :: "string option \<Rightarrow> sire_feature" where
  "zero_feature name =
     \<lparr>sire_name = name,
      sire_track_roi = Some 0,
      sire_track_win_rate = Some 0,
      sire_track_races = 0,
      sire_track_roi_rank = 0\<rparr>"

text \<open>The inner \<^verbatim>\<open>try\<close> around the rank query.\<close>

definition lookup_roi_rank :: "engine \<Rightarrow> string \<Rightarrow> string \<Rightarrow> string \<Rightarrow> exn + int" where
  "lookup_roi_rank db sire_id race_track_type race_condition =
     try_except
       (and_then
          (read_sql db HorseSireTrackRank
             (sire_rank_query db sire_id race_track_type race_condition))
          (\<lambda>rank_info. Inr (case rank_info of [] \<Rightarrow> 0 | roi_rank # _ \<Rightarrow> roi_rank)))
       (\<lambda>e. Inr 0)"

definition get_horse_sire_track_roi_feature ::
  "engine \<Rightarrow> string \<Rightarrow> string \<Rightarrow> string \<Rightarrow> exn + sire_feature" where
  "get_horse_sire_track_roi_feature db horse_id race_track_type race_condition =
     try_except
       (and_then (read_sql db HorseSireLookup (sire_lookup_query db horse_id))
          (\<lambda>sire_info.
             case sire_info of
               [] \<Rightarrow> Inr (zero_feature None)
             | (sire_id, name) # _ \<Rightarrow>
                 and_then
                   (read_sql db HorseSireTrackRoi
                      (horse_sire_track_roi_query db sire_id race_track_type race_condition))
                   (\<lambda>roi_info.
                      case roi_info of
                        [] \<Rightarrow> Inr (zero_feature (Some name))
                      | row # _ \<Rightarrow>
                          and_then
                            (lookup_roi_rank db sire_id race_track_type race_condition)
                            (\<lambda>roi_rank.
                               Inr \<lparr>sire_name = Some name,
                                    sire_track_roi = sg_roi_percentage row,
                                    sire_track_win_rate = sg_win_rate row,
                                    sire_track_races = sg_total_races row,
                                    sire_track_roi_rank = roi_rank\<rparr>))))
       (\<lambda>e. Inr (zero_feature None))"


section \<open>\<^verbatim>\<open>BloodFeatureGenerator.get_pedigree_tree\<close>\<close>

text \<open>
  A row of the recursive query. The columns taken from the outer side of a
  \<^verbatim>\<open>LEFT JOIN\<close> are \<^verbatim>\<open>NULL\<close> (\<open>None\<close>) when the ancestor has no row of its own.
\<close>

record pedigree_row =
  pd_horse_id :: "string option"
  pd_horse_name :: "string option"
  pd_sire_id :: "string option"
  pd_sire_name :: "string option"
  pd_dam_id :: "string option"
  pd_dam_name :: "string option"
  pd_generation :: int
  pd_position :: string

definition pedigree_base :: "engine \<Rightarrow> string \<Rightarrow> pedigree_row list" where
  "pedigree_base db horse_id =
     [\<lparr>pd_horse_id = Some (um_ketto_toroku_bango u),
       pd_horse_name = Some (trim (um_bamei u)),
       pd_sire_id = Some (um_ketto_joho_01a u),
       pd_sire_name = Some (trim (um_ketto_joho_01b u)),
       pd_dam_id = Some (um_ketto_joho_02a u),
       pd_dam_name = Some (trim (um_ketto_joho_02b u)),
       pd_generation = 1,
       pd_position = ''1''\<rparr>.
      u \<leftarrow> jvd_um db, um_ketto_toroku_bango u = horse_id]"

text \<open>
  \<^verbatim>\<open>p LEFT JOIN jvd_um x ON ident = x.ketto_toroku_bango\<close>: every matching row, or
  one all-\<^verbatim>\<open>NULL\<close> row when there is none.
\<close>

definition left_join_um :: "engine \<Rightarrow> string option \<Rightarrow> jvd_um_row option list" where
  "left_join_um db ident =
     (case ident of
        None \<Rightarrow> [None]
      | Some i \<Rightarrow>
          (let ms = filter (\<lambda>u. um_ketto_toroku_bango u = i) (jvd_um db)
           in if ms = [] then [None] else map Some ms))"

definition known_ancestor :: "string option \<Rightarrow> bool" where
  "known_ancestor ident = (ident \<noteq> Some ''0000000000'' \<and> ident \<noteq> None)"

definition pedigree_sire_side :: "engine \<Rightarrow> int \<Rightarrow> pedigree_row \<Rightarrow> pedigree_row list" where
  "pedigree_sire_side db depth p =
     [\<lparr>pd_horse_id = pd_sire_id p,
       pd_horse_name = pd_sire_name p,
       pd_sire_id = map_option um_ketto_joho_01a s,
       pd_sire_name = map_option (\<lambda>u. trim (um_ketto_joho_01b u)) s,
       pd_dam_id = map_option um_ketto_joho_02a s,
       pd_dam_name = map_option (\<lambda>u. trim (um_ketto_joho_02b u)) s,
       pd_generation = pd_generation p + 1,
       pd_position = pd_position p @ ''1''\<rparr>.
      s \<leftarrow> left_join_um db (pd_sire_id p),
      pd_generation p < depth, known_ancestor (pd_sire_id p)]"

definition pedigree_dam_side :: "engine \<Rightarrow> int \<Rightarrow> pedigree_row \<Rightarrow> pedigree_row list" where
  "pedigree_dam_side db depth p =
     [\<lparr>pd_horse_id = pd_dam_id p,
       pd_horse_name = pd_dam_name p,
       pd_sire_id = map_option um_ketto_joho_01a d,
       pd_sire_name = map_option (\<lambda>u. trim (um_ketto_joho_01b u)) d,
       pd_dam_id = map_option um_ketto_joho_02a d,
       pd_dam_name = map_option (\<lambda>u. trim (um_ketto_joho_02b u)) d,
       pd_generation = pd_generation p + 1,
       pd_position = pd_position p @ ''2''\<rparr>.
      d \<leftarrow> left_join_um db (pd_dam_id p),
      pd_generation p < depth, known_ancestor (pd_dam_id p)]"

text \<open>One round of the recursion: the rows the working table \<open>wt\<close> gives rise to.\<close>

definition pedigree_step :: "engine \<Rightarrow> int \<Rightarrow> pedigree_row list \<Rightarrow> pedigree_row list" where
  "pedigree_step db depth wt =
     concat (map (pedigree_sire_side db depth) wt) @ concat (map (pedigree_dam_side db depth) wt)"

text \<open>What is left of the depth budget in a working table; it bounds the recursion.\<close>

definition budget :: "int \<Rightarrow> pedigree_row list \<Rightarrow> nat" where
  "budget depth wt =
     (if wt = [] then 0 else Suc (Max (set (map (\<lambda>p. nat (depth - pd_generation p)) wt))))"


text \<open>
  \<^verbatim>\<open>WITH RECURSIVE pedigree\<close>: the result is the concatenation of the working tables,
  starting with the base rows, until a round adds nothing.
\<close>

function pedigree_cte :: "engine \<Rightarrow> int \<Rightarrow> pedigree_row list \<Rightarrow> pedigree_row list" where
  "pedigree_cte db depth wt =
     (if wt = [] then [] else wt @ pedigree_cte db depth (pedigree_step db depth wt))"
  by pat_completeness auto
termination
proof (relation "measure (\<lambda>(db, depth, wt). budget depth wt)")
  show "wf (measure (\<lambda>(db, depth, wt). budget depth wt))"
    by simp
next
  fix db :: engine and depth :: int and wt :: "pedigree_row list"
  assume ne: "wt \<noteq> []"
  let ?f = "\<lambda>p. nat (depth - pd_generation p)"
  have "budget depth (pedigree_step db depth wt) < budget depth wt"
  proof (cases "pedigree_step db depth wt = []")
    case True
    with ne show ?thesis by (simp add: budget_def)
  next
    case False
    have "\<forall>q \<in> set (pedigree_step db depth wt). \<exists>p \<in> set wt. ?f q < ?f p"
      by (fastforce simp: pedigree_step_def pedigree_sire_side_def pedigree_dam_side_def
            split: if_splits)
    then have "\<forall>a \<in> ?f ` set (pedigree_step db depth wt). a < Max (?f ` set wt)"
      using ne by (auto simp: Max_gr_iff)
    then have "Max (?f ` set (pedigree_step db depth wt)) < Max (?f ` set wt)"
      using False by (subst Max_less_iff) auto
    with False ne show ?thesis by (simp add: budget_def)
  qed
  then show "((db, depth, pedigree_step db depth wt), (db, depth, wt))
               \<in> measure (\<lambda>(db, depth, wt). budget depth wt)"
    by simp
qed

declare pedigree_cte.simps [simp del]

text \<open>The whole query, with its \<^verbatim>\<open>ORDER BY generation, position\<close> (a stable sort).\<close>

definition pedigree_query :: "engine \<Rightarrow> string \<Rightarrow> int \<Rightarrow> pedigree_row list" where
  "pedigree_query db horse_id depth =
     sort_key (\<lambda>row. (pd_generation row, pd_position row))
       (pedigree_cte db depth (pedigree_base db horse_id))"

text \<open>
  A node of the returned tree is a Python dict: the keys \<^verbatim>\<open>'id'\<close> and \<^verbatim>\<open>'name'\<close> are
  always set together (\<open>node_entry\<close>), the keys \<^verbatim>\<open>'sire'\<close> and \<^verbatim>\<open>'dam'\<close> may each
  be absent. The empty dict \<^verbatim>\<open>{}\<close> has no key at all.
\<close>

datatype pnode =
  PNode (node_entry: "(string option \<times> string option) option")
        (node_sire: "pnode option")
        (node_dam: "pnode option")

definition empty_dict :: pnode where
  "empty_dict = PNode None None None"

text \<open>\<^verbatim>\<open>{'id': i, 'name': n}\<close>\<close>

definition leaf :: "string option \<Rightarrow> string option \<Rightarrow> pnode" where
  "leaf i n = PNode (Some (i, n)) None None"

text \<open>
  The walk from the root along \<^verbatim>\<open>parent_pos[1:]\<close> and the assignment
  \<^verbatim>\<open>current['sire'] = node\<close> or \<^verbatim>\<open>current['dam'] = node\<close> at its end. The dicts
  are nested and never shared, so the in-place update is an update along the path.
  Reading a key that is absent raises \<^verbatim>\<open>KeyError\<close>.
\<close>

fun attach :: "string \<Rightarrow> bool \<Rightarrow> pnode \<Rightarrow> pnode \<Rightarrow> exn + pnode" where
  "attach [] is_sire node current =
     Inr (if is_sire then PNode (node_entry current) (Some node) (node_dam current)
          else PNode (node_entry current) (node_sire current) (Some node))"
| "attach (c # cs) is_sire node current =
     (if c = CHR ''1'' then
        (case node_sire current of
           None \<Rightarrow> Inl KeyError
         | Some child \<Rightarrow>
             and_then (attach cs is_sire node child)
               (\<lambda>child'. Inr (PNode (node_entry current) (Some child') (node_dam current))))
      else
        (case node_dam current of
           None \<Rightarrow> Inl KeyError
         | Some child \<Rightarrow>
             and_then (attach cs is_sire node child)
               (\<lambda>child'. Inr (PNode (node_entry current) (node_sire current) (Some child')))))"

text \<open>The body of the loop over the rows, for one row.\<close>

definition place_row :: "int \<Rightarrow> pnode \<Rightarrow> pedigree_row \<Rightarrow> exn + pnode" where
  "place_row depth tree row =
     (if pd_generation row = 1 then
        Inr (PNode (Some (pd_horse_id row, pd_horse_name row))
               (Some (leaf (pd_sire_id row) (pd_sire_name row)))
               (Some (leaf (pd_dam_id row) (pd_dam_name row))))
      else if pd_position row = [] then Inl IndexError
      else
        (let pos = pd_position row;
             parent_pos = butlast pos;
             is_sire = (last pos = CHR ''1'');
             node = (if pd_generation row < depth
                     then PNode (Some (pd_horse_id row, pd_horse_name row))
                            (Some (leaf (pd_sire_id row) (pd_sire_name row)))
                            (Some (leaf (pd_dam_id row) (pd_dam_name row)))
                     else leaf (pd_horse_id row) (pd_horse_name row))
         in attach (tl parent_pos) is_sire node tree))"

fun reshape :: "int \<Rightarrow> pnode \<Rightarrow> pedigree_row list \<Rightarrow> exn + pnode" where
  "reshape depth tree [] = Inr tree"
| "reshape depth tree (row # rows) =
     and_then (place_row depth tree row) (\<lambda>tree'. reshape depth tree' rows)"

definition get_pedigree_tree :: "engine \<Rightarrow> string \<Rightarrow> int \<Rightarrow> exn + pnode" where
  "get_pedigree_tree db horse_id requested =
     (let depth = (if requested > 3 then 3 else requested)
      in try_except
           (and_then (read_sql db PedigreeQuery (pedigree_query db horse_id depth))
              (\<lambda>df. if df = [] then Inr empty_dict else reshape depth empty_dict df))
           (\<lambda>e. Inr empty_dict))"


section \<open>\<^verbatim>\<open>JockeyFeatureGenerator\<close>: the three rollups\<close>

type_synonym course_key = "string \<times> string \<times> string \<times> string \<times> string"

definition jockey_course_results :: "engine \<Rightarrow> int \<Rightarrow> course_key cte_row list" where
  "jockey_course_results db since_year =
     [\<lparr>grp = (se_kishu_code s, trim (se_kishumei_ryakusho s),
               course_name_of (ra_keibajo_code r), track_type_of r,
               distance_category_of (ra_kyori r)),
       finish_pos = se_kakutei_chakujun s,
       win_odds = decimal_odds odds,
       popularity = se_tansho_ninkijun s\<rparr>.
      s \<leftarrow> jvd_se db,
      r \<leftarrow> jvd_ra db, same_race s r,
      finished s,
      str_int since_year \<le> ra_kaisai_nen r,
      odds \<leftarrow> non_null (se_tansho_odds s)]"

record jockey_course_stat = aggregate_stat +
  jc_jockey_id :: string
  jc_jockey_name :: string
  jc_course_name :: string
  jc_track_type :: string
  jc_distance_category :: string
  jc_top3_finishes :: int
  jc_top3_rate :: "rat option"
  jc_avg_popularity :: "rat option"
  jc_middle_odds_wins :: int
  jc_longshot_wins :: int

definition jockey_course_select :: "course_key \<times> course_key cte_row list \<Rightarrow> jockey_course_stat" where
  "jockey_course_select g =
     (case g of ((jockey_id, jockey_name, course_name, track_type, distance_category), rows) \<Rightarrow>
        \<lparr>total_races = count_star rows,
         wins = count_filter is_win rows,
         win_rate = agg_win_rate rows,
         roi_percentage = agg_roi_percentage rows,
         avg_win_odds = agg_avg_win_odds rows,
         jc_jockey_id = jockey_id,
         jc_jockey_name = jockey_name,
         jc_course_name = course_name,
         jc_track_type = track_type,
         jc_distance_category = distance_category,
         jc_top3_finishes = count_filter is_top3 rows,
         jc_top3_rate = agg_top3_rate rows,
         jc_avg_popularity = agg_avg_popularity rows,
         jc_middle_odds_wins = count_filter (\<lambda>r. pop_ge 4 r \<and> pop_le 8 r \<and> is_win r) rows,
         jc_longshot_wins = count_filter (\<lambda>r. pop_ge 9 r \<and> is_win r) rows\<rparr>)"

definition jockey_course_roi_query :: "engine \<Rightarrow> int \<Rightarrow> int \<Rightarrow> jockey_course_stat list" where
  "jockey_course_roi_query db since_year min_races =
     order_by_roi_desc
       (map jockey_course_select
          (having_min_races min_races (group_by grp (jockey_course_results db since_year))))"

definition get_jockey_course_roi :: "engine \<Rightarrow> int \<Rightarrow> int \<Rightarrow> exn + jockey_course_stat list" where
  "get_jockey_course_roi db since_year min_races =
     try_except
       (read_sql db JockeyCourseRoi (jockey_course_roi_query db since_year min_races))
       (\<lambda>e. Inr [])"

type_synonym popularity_key = "string \<times> string \<times> string"

definition jockey_popularity_results :: "engine \<Rightarrow> int \<Rightarrow> popularity_key cte_row list" where
  "jockey_popularity_results db since_year =
     [\<lparr>grp = (se_kishu_code s, trim (se_kishumei_ryakusho s), popularity_category_of ninkijun),
       finish_pos = se_kakutei_chakujun s,
       win_odds = decimal_odds odds,
       popularity = None\<rparr>.
      s \<leftarrow> jvd_se db,
      r \<leftarrow> jvd_ra db, same_race s r,
      finished s,
      str_int since_year \<le> ra_kaisai_nen r,
      odds \<leftarrow> non_null (se_tansho_odds s),
      ninkijun \<leftarrow> non_null (se_tansho_ninkijun s)]"

record jockey_popularity_stat = aggregate_stat +
  jp_jockey_id :: string
  jp_jockey_name :: string
  jp_popularity_category :: string
  jp_top3_finishes :: int
  jp_top3_rate :: "rat option"

definition jockey_popularity_select ::
  "popularity_key \<times> popularity_key cte_row list \<Rightarrow> jockey_popularity_stat" where
  "jockey_popularity_select g =
     (case g of ((jockey_id, jockey_name, popularity_category), rows) \<Rightarrow>
        \<lparr>total_races = count_star rows,
         wins = count_filter is_win rows,
         win_rate = agg_win_rate rows,
         roi_percentage = agg_roi_percentage rows,
         avg_win_odds = agg_avg_win_odds rows,
         jp_jockey_id = jockey_id,
         jp_jockey_name = jockey_name,
         jp_popularity_category = popularity_category,
         jp_top3_finishes = count_filter is_top3 rows,
         jp_top3_rate = agg_top3_rate rows\<rparr>)"

text \<open>\<^verbatim>\<open>ORDER BY popularity_category, roi_percentage DESC\<close>\<close>

definition jockey_popularity_roi_query ::
  "engine \<Rightarrow> int \<Rightarrow> int \<Rightarrow> jockey_popularity_stat list" where
  "jockey_popularity_roi_query db since_year min_races =
     sort_key (\<lambda>g. (jp_popularity_category g, desc (roi_percentage g)))
       (map jockey_popularity_select
          (having_min_races min_races (group_by grp (jockey_popularity_results db since_year))))"

definition get_jockey_popularity_roi ::
  "engine \<Rightarrow> int \<Rightarrow> int \<Rightarrow> exn + jockey_popularity_stat list" where
  "get_jockey_popularity_roi db since_year min_races =
     try_except
       (read_sql db JockeyPopularityRoi (jockey_popularity_roi_query db since_year min_races))
       (\<lambda>e. Inr [])"

type_synonym surface_key = "string \<times> string \<times> string \<times> string"

definition jockey_surface_results :: "engine \<Rightarrow> int \<Rightarrow> surface_key cte_row list" where
  "jockey_surface_results db since_year =
     [\<lparr>grp = (se_kishu_code s, trim (se_kishumei_ryakusho s),
               track_type_of r, track_condition_of r),
       finish_pos = se_kakutei_chakujun s,
       win_odds = decimal_odds odds,
       popularity = se_tansho_ninkijun s\<rparr>.
      s \<leftarrow> jvd_se db,
      r \<leftarrow> jvd_ra db, same_race s r,
      finished s,
      str_int since_year \<le> ra_kaisai_nen r,
      odds \<leftarrow> non_null (se_tansho_odds s)]"

record jockey_surface_stat = aggregate_stat +
  js_jockey_id :: string
  js_jockey_name :: string
  js_track_type :: string
  js_surface_condition :: string
  js_top3_finishes :: int
  js_top3_rate :: "rat option"
  js_avg_popularity :: "rat option"
  js_non_favorite_wins :: int

definition jockey_surface_select ::
  "surface_key \<times> surface_key cte_row list \<Rightarrow> jockey_surface_stat" where
  "jockey_surface_select g =
     (case g of ((jockey_id, jockey_name, track_type, surface_condition), rows) \<Rightarrow>
        \<lparr>total_races = count_star rows,
         wins = count_filter is_win rows,
         win_rate = agg_win_rate rows,
         roi_percentage = agg_roi_percentage rows,
         avg_win_odds = agg_avg_win_odds rows,
         js_jockey_id = jockey_id,
         js_jockey_name = jockey_name,
         js_track_type = track_type,
         js_surface_condition = surface_condition,
         js_top3_finishes = count_filter is_top3 rows,
         js_top3_rate = agg_top3_rate rows,
         js_avg_popularity = agg_avg_popularity rows,
         js_non_favorite_wins = count_filter (\<lambda>r. pop_ge 4 r \<and> is_win r) rows\<rparr>)"

definition jockey_surface_condition_roi_query ::
  "engine \<Rightarrow> int \<Rightarrow> int \<Rightarrow> jockey_surface_stat list" where
  "jockey_surface_condition_roi_query db since_year min_races =
     order_by_roi_desc
       (map jockey_surface_select
          (having_min_races min_races (group_by grp (jockey_surface_results db since_year))))"

definition get_jockey_surface_condition_roi ::
  "engine \<Rightarrow> int \<Rightarrow> int \<Rightarrow> exn + jockey_surface_stat list" where
  "get_jockey_surface_condition_roi db since_year min_races =
     try_except
       (read_sql db JockeySurfaceConditionRoi
          (jockey_surface_condition_roi_query db since_year min_races))
       (\<lambda>e. Inr [])"


section \<open>\<^verbatim>\<open>JockeyFeatureGenerator.get_jockey_course_feature\<close>\<close>

definition course_code_map :: "(string \<times> string) list" where
  "course_code_map =
     [(lbl_sapporo, ''01''), (lbl_hakodate, ''02''), (lbl_fukushima, ''03''),
      (lbl_niigata, ''04''), (lbl_tokyo, ''05''), (lbl_nakayama, ''06''),
      (lbl_chukyo, ''07''), (lbl_kyoto, ''08''), (lbl_hanshin, ''09''),
      (lbl_kokura, ''10'')]"

text \<open>
  \<^verbatim>\<open>course_code_map.get(course_name)\<close>, replaced by the name itself when the lookup
  gives \<^verbatim>\<open>None\<close> or an empty string.
\<close>

definition course_code_of :: "string \<Rightarrow> string" where
  "course_code_of course_name =
     (case map_of course_code_map course_name of
        None \<Rightarrow> course_name
      | Some code \<Rightarrow> (if code = [] then course_name else code))"

type_synonym jockey_key = "string \<times> string"

definition jockey_course_stats ::
  "engine \<Rightarrow> string \<Rightarrow> string \<Rightarrow> string \<Rightarrow> string \<Rightarrow> jockey_key cte_row list" where
  "jockey_course_stats db jockey_id course_code track_type distance_category =
     [\<lparr>grp = (se_kishu_code s, trim (se_kishumei_ryakusho s)),
       finish_pos = se_kakutei_chakujun s,
       win_odds = decimal_odds odds,
       popularity = se_tansho_ninkijun s\<rparr>.
      s \<leftarrow> jvd_se db,
      r \<leftarrow> jvd_ra db, same_race s r,
      finished s,
      se_kishu_code s = jockey_id,
      ra_keibajo_code r = course_code,
      track_type_of r = track_type,
      distance_category_of (ra_kyori r) = distance_category,
      odds \<leftarrow> non_null (se_tansho_odds s)]"

definition jockey_all_stats :: "engine \<Rightarrow> string \<Rightarrow> jockey_key cte_row list" where
  "jockey_all_stats db jockey_id =
     [\<lparr>grp = (se_kishu_code s, trim (se_kishumei_ryakusho s)),
       finish_pos = se_kakutei_chakujun s,
       win_odds = decimal_odds odds,
       popularity = None\<rparr>.
      s \<leftarrow> jvd_se db,
      finished s,
      se_kishu_code s = jockey_id,
      odds \<leftarrow> non_null (se_tansho_odds s)]"

text \<open>The values of a result row once \<^verbatim>\<open>to_dict\<close> has turned it into a Python dict.\<close>

datatype pyval = PStr string | PInt int | PNum "rat option"

type_synonym pydict = "(string \<times> pyval) list"

text \<open>
  The final \<^verbatim>\<open>SELECT\<close> for one pair of joined groups: \<open>a\<close> of
  \<^verbatim>\<open>aggregate_stats\<close> and \<open>all_a\<close> of \<^verbatim>\<open>all_aggregate_stats\<close>.
\<close>

definition jockey_feature_select ::
  "string \<Rightarrow> string \<Rightarrow> string \<Rightarrow> jockey_key \<times> jockey_key cte_row list \<Rightarrow>
   jockey_key \<times> jockey_key cte_row list \<Rightarrow> pydict" where
  "jockey_feature_select course_name track_type distance_category a all_a =
     (case (a, all_a) of (((jockey_id, jockey_name), rows), (all_key, all_rows)) \<Rightarrow>
        [(''jockey_id'', PStr jockey_id),
         (''jockey_name'', PStr jockey_name),
         (''course_name'', PStr course_name),
         (''track_type'', PStr track_type),
         (''distance_category'', PStr distance_category),
         (''total_races'', PInt (count_star rows)),
         (''wins'', PInt (count_filter is_win rows)),
         (''top3_finishes'', PInt (count_filter is_top3 rows)),
         (''win_rate'', PNum (agg_win_rate rows)),
         (''top3_rate'', PNum (agg_top3_rate rows)),
         (''roi_percentage'', PNum (agg_roi_percentage rows)),
         (''avg_win_odds'', PNum (agg_avg_win_odds rows)),
         (''avg_popularity'', PNum (agg_avg_popularity rows)),
         (''middle_odds_wins'',
            PInt (count_filter (\<lambda>r. pop_ge 4 r \<and> pop_le 8 r \<and> is_win r) rows)),
         (''longshot_wins'', PInt (count_filter (\<lambda>r. pop_ge 9 r \<and> is_win r) rows)),
         (''all_total_races'', PInt (count_star all_rows)),
         (''all_win_rate'', PNum (agg_win_rate all_rows)),
         (''all_roi_percentage'', PNum (agg_roi_percentage all_rows)),
         (''course_aptitude_index'',
            PNum (ratio2 (agg_roi_percentage rows) (agg_roi_percentage all_rows))),
         (''win_rate_ratio'', PNum (ratio2 (agg_win_rate rows) (agg_win_rate all_rows)))])"

definition jockey_course_feature_query ::
  "engine \<Rightarrow> string \<Rightarrow> string \<Rightarrow> string \<Rightarrow> string \<Rightarrow> pydict list" where
  "jockey_course_feature_query db jockey_id course_name track_type distance_category =
     [jockey_feature_select course_name track_type distance_category a all_a.
      a \<leftarrow> group_by grp
             (jockey_course_stats db jockey_id (course_code_of course_name)
                track_type distance_category),
      all_a \<leftarrow> group_by grp (jockey_all_stats db jockey_id),
      fst (fst a) = fst (fst all_a)]"

text \<open>The dict of the two degraded returns.\<close>

definition empty_jockey_feature :: "string \<Rightarrow> string \<Rightarrow> string \<Rightarrow> string \<Rightarrow> pydict" where
  "empty_jockey_feature jockey_id course_name track_type distance_category =
     [(''jockey_id'', PStr jockey_id),
      (''jockey_name'', PStr []),
      (''course_name'', PStr course_name),
      (''track_type'', PStr track_type),
      (''distance_category'', PStr distance_category),
      (''total_races'', PInt 0),
      (''wins'', PInt 0),
      (''win_rate'', PNum (Some 0)),
      (''roi_percentage'', PNum (Some 0)),
      (''avg_win_odds'', PNum (Some 0)),
      (''course_aptitude_index'', PNum (Some 0)),
      (''win_rate_ratio'', PNum (Some 0))]"

definition get_jockey_course_feature ::
  "engine \<Rightarrow> string \<Rightarrow> string \<Rightarrow> string \<Rightarrow> string \<Rightarrow> exn + pydict" where
  "get_jockey_course_feature db jockey_id course_name track_type distance_category =
     try_except
       (and_then
          (read_sql db JockeyCourseFeature
             (jockey_course_feature_query db jockey_id course_name track_type
                distance_category))
          (\<lambda>df. case df of
                   [] \<Rightarrow> Inr (empty_jockey_feature jockey_id course_name track_type
                               distance_category)
                 | result # _ \<Rightarrow> Inr result))
       (\<lambda>e. Inr (empty_jockey_feature jockey_id course_name track_type distance_category))"

definition keys :: "pydict \<Rightarrow> string set" where
  "keys d = set (map fst d)"


section \<open>Example data\<close>

text \<open>
  One race on turf in good going in 2020 at Tokyo over 1600 m, won by horse \<open>H1\<close>
  (by sire \<open>S1\<close> out of dam \<open>D1\<close>) under jockey \<open>J1\<close> at odds 3.0 as second
  favourite.
\<close>

definition se1 :: jvd_se_row where
  "se1 = \<lparr>se_kaisai_nen = ''2020'', se_kaisai_tsukihi = ''0101'', se_keibajo_code = ''05'',
          se_race_bango = ''01'', se_ketto_toroku_bango = ''H1'', se_kishu_code = ''J1'',
          se_kishumei_ryakusho = ''Jock  '', se_kakutei_chakujun = ''01'',
          se_tansho_odds = Some 30, se_tansho_ninkijun = Some 2\<rparr>"

definition ra1 :: jvd_ra_row where
  "ra1 = \<lparr>ra_kaisai_nen = ''2020'', ra_kaisai_tsukihi = ''0101'', ra_keibajo_code = ''05'',
          ra_race_bango = ''01'', ra_track_code = ''11'', ra_babajotai_code_shiba = ''1'',
          ra_babajotai_code_dirt = ''0'', ra_kyori = 1600\<rparr>"

definition um1 :: jvd_um_row where
  "um1 = \<lparr>um_ketto_toroku_bango = ''H1'', um_bamei = ''Horse'',
          um_ketto_joho_01a = ''S1'', um_ketto_joho_01b = ''Sire  '',
          um_ketto_joho_02a = ''D1'', um_ketto_joho_02b = ''Dam''\<rparr>"

text \<open>The sire has a row of its own; its dam is unknown.\<close>

definition um2 :: jvd_um_row where
  "um2 = \<lparr>um_ketto_toroku_bango = ''S1'', um_bamei = ''Sire'',
          um_ketto_joho_01a = ''SS'', um_ketto_joho_01b = ''Grandsire'',
          um_ketto_joho_02a = ''0000000000'', um_ketto_joho_02b = []\<rparr>"

definition db1 :: engine where
  "db1 = \<lparr>jvd_se = [se1], jvd_ra = [ra1], jvd_um = [um1, um2], failing = {}\<rparr>"

text \<open>A runner of the same race that did not finish (sentinel position 99).\<close>

definition se_scratched :: jvd_se_row where
  "se_scratched = se1\<lparr>se_kakutei_chakujun := ''99''\<rparr>"

text \<open>
  A second runner of the same race under the same jockey: a loser that started as
  fifth favourite.
\<close>

definition se2 :: jvd_se_row where
  "se2 = se1\<lparr>se_ketto_toroku_bango := ''H2'', se_kakutei_chakujun := ''05'',
            se_tansho_odds := Some 120, se_tansho_ninkijun := Some 5\<rparr>"

definition db2 :: engine where
  "db2 = \<lparr>jvd_se = [se2, se1], jvd_ra = [ra1], jvd_um = [um1, um2], failing = {}\<rparr>"


section \<open>The pedigree tree: depth and missing root\<close>

lemma pedigree_cte_Nil: "pedigree_cte db depth [] = []"
  by (simp add: pedigree_cte.simps)

lemma pedigree_query_no_root:
  assumes "\<forall>u \<in> set (jvd_um db). um_ketto_toroku_bango u \<noteq> horse_id"
  shows "pedigree_query db horse_id depth = []"
proof -
  from assms have "pedigree_base db horse_id = []"
    by (induction "jvd_um db") (auto simp: pedigree_base_def)
  then show ?thesis
    by (simp add: pedigree_query_def pedigree_cte_Nil)
qed

text \<open>
  Claim C7. \<^verbatim>\<open>get_pedigree_tree\<close> replaces a requested depth above 3 by 3 before it
  does anything else, so such a request gives the result of depth 3 (depth 5 in
  particular); and when \<^verbatim>\<open>jvd_um\<close> holds no row for the horse the result is the
  empty dict, returned and not raised.
\<close>

theorem pedigree_depth_clamped:
  "(3 < requested \<longrightarrow>
      get_pedigree_tree db horse_id requested = get_pedigree_tree db horse_id 3)
   \<and> get_pedigree_tree db horse_id 5 = get_pedigree_tree db horse_id 3
   \<and> ((\<forall>u \<in> set (jvd_um db). um_ketto_toroku_bango u \<noteq> horse_id) \<longrightarrow>
        get_pedigree_tree db horse_id requested = Inr empty_dict)"
proof (intro conjI impI)
  assume "3 < requested"
  then show "get_pedigree_tree db horse_id requested = get_pedigree_tree db horse_id 3"
    by (simp add: get_pedigree_tree_def)
next
  show "get_pedigree_tree db horse_id 5 = get_pedigree_tree db horse_id 3"
    by (simp add: get_pedigree_tree_def)
next
  assume "\<forall>u \<in> set (jvd_um db). um_ketto_toroku_bango u \<noteq> horse_id"
  then have "pedigree_query db horse_id depth = []" for depth
    by (rule pedigree_query_no_root)
  then show "get_pedigree_tree db horse_id requested = Inr empty_dict"
    by (simp add: get_pedigree_tree_def Let_def read_sql_def try_except_def and_then_def)
qed

theorem pedigree_depth_clamped_witness:
  "(3::int) < 5
   \<and> get_pedigree_tree db1 ''H1'' 5 = get_pedigree_tree db1 ''H1'' 3
   \<and> get_pedigree_tree db1 ''H1'' 3 \<noteq> Inr empty_dict
   \<and> ''H9'' \<notin> um_ketto_toroku_bango ` set (jvd_um db1)
   \<and> get_pedigree_tree db1 ''H9'' 5 = Inr empty_dict"
proof -
  have absent: "\<forall>u \<in> set (jvd_um db1). um_ketto_toroku_bango u \<noteq> ''H9''"
    by (simp add: db1_def um1_def um2_def)
  have tree: "get_pedigree_tree db1 ''H1'' 3 \<noteq> Inr empty_dict"
    by code_simp
  have lt: "(3::int) < 5"
    by simp
  from pedigree_depth_clamped [of 5 db1 "''H1''"]
  have clamp: "get_pedigree_tree db1 ''H1'' 5 = get_pedigree_tree db1 ''H1'' 3"
    by blast
  from pedigree_depth_clamped [of 5 db1 "''H9''"] absent
  have none: "get_pedigree_tree db1 ''H9'' 5 = Inr empty_dict"
    by blast
  have "''H9'' \<notin> um_ketto_toroku_bango ` set (jvd_um db1)"
    by (simp add: db1_def um1_def um2_def)
  with lt clamp tree none show ?thesis
    by blast
qed

end
